theory Spec2Isabelle
  imports Complex_Main "HOL-Library.Log_Nat"
begin


section \<open>Python floats\<close>

text \<open>
  The development embeds the function \<open>simulate\<close> of \<open>optionalgo.py\<close> together with its
  nested helper \<open>record\<close>. The four price inputs come from numeric input widgets and are
  Python floats, that is IEEE 754 binary64 numbers, and every sum, product and quotient of
  the script is rounded. A float is modelled by its value: a real number, one of the two
  infinities, or NaN. The two zeros are identified, as Python's \<open>==\<close> does; the script divides
  only by the literals 100 and 2, so the sign of a zero never changes another result.
\<close>

datatype pyfloat = Fin real | PInf | NInf | NaN

text \<open>
  Rounding to the nearest binary64 number, ties to even. \<open>expo x\<close> is the binary exponent
  of \<open>x\<close>, not below that of the subnormal range; consecutive floats of that binade lie
  \<open>ulp x\<close> apart (53 significant bits); \<open>rne\<close> rounds a real to the nearest integer, a tie
  to the even one. A rounded magnitude of \<open>2 ^ 1024\<close> or more is an overflow.
\<close>

definition expo :: "real \<Rightarrow> int" where
  "expo x = max \<lfloor>log 2 \<bar>x\<bar>\<rfloor> (- 1022)"

definition ulp :: "real \<Rightarrow> real" where
  "ulp x = 2 powi (expo x - 52)"

definition rne :: "real \<Rightarrow> int" where
  "rne q =
     (let f = \<lfloor>q\<rfloor>; d = q - of_int f
      in if d < 1 / 2 then f else if 1 / 2 < d then f + 1 else if even f then f else f + 1)"

definition round_val :: "real \<Rightarrow> real" where
  "round_val x = (if x = 0 then 0 else of_int (rne (x / ulp x)) * ulp x)"

definition to_f64 :: "real \<Rightarrow> pyfloat" where
  "to_f64 x =
     (let y = round_val x
      in if 2 ^ 1024 \<le> y then PInf else if y \<le> - (2 ^ 1024) then NInf else Fin y)"

text \<open>
  The reals that are binary64 numbers: rounding leaves them alone. The inputs of a run are
  such numbers; the operations below are defined on every real value, and no theorem of
  this development needs its inputs to be representable.
\<close>

definition is_double :: "real \<Rightarrow> bool" where
  "is_double x \<longleftrightarrow> to_f64 x = Fin x"

text \<open>The exceptions that the built-ins and operators used by the script can raise.\<close>

datatype error = ValueError | IndexError | ZeroDivisionError | OverflowError

text \<open>The comparisons \<open><\<close> and \<open><=\<close> of floats: false whenever an operand is NaN.\<close>

fun fl_less :: "pyfloat \<Rightarrow> pyfloat \<Rightarrow> bool" where
  "fl_less NaN _ = False"
| "fl_less _ NaN = False"
| "fl_less (Fin x) (Fin y) = (x < y)"
| "fl_less _ NInf = False"
| "fl_less NInf _ = True"
| "fl_less PInf _ = False"
| "fl_less _ PInf = True"


text \<open>
  Float addition and multiplication: the exact result rounded, overflow gives an infinity
  and raises nothing.
\<close>

fun fl_add :: "pyfloat \<Rightarrow> pyfloat \<Rightarrow> pyfloat" where
  "fl_add NaN _ = NaN"
| "fl_add _ NaN = NaN"
| "fl_add (Fin x) (Fin y) = to_f64 (x + y)"
| "fl_add PInf NInf = NaN"
| "fl_add NInf PInf = NaN"
| "fl_add PInf _ = PInf"
| "fl_add NInf _ = NInf"
| "fl_add _ PInf = PInf"
| "fl_add _ NInf = NInf"

fun fl_mul :: "pyfloat \<Rightarrow> pyfloat \<Rightarrow> pyfloat" where
  "fl_mul NaN _ = NaN"
| "fl_mul _ NaN = NaN"
| "fl_mul (Fin x) (Fin y) = to_f64 (x * y)"
| "fl_mul (Fin x) PInf = (if x = 0 then NaN else if 0 < x then PInf else NInf)"
| "fl_mul (Fin x) NInf = (if x = 0 then NaN else if 0 < x then NInf else PInf)"
| "fl_mul PInf (Fin y) = (if y = 0 then NaN else if 0 < y then PInf else NInf)"
| "fl_mul NInf (Fin y) = (if y = 0 then NaN else if 0 < y then NInf else PInf)"
| "fl_mul PInf PInf = PInf"
| "fl_mul PInf NInf = NInf"
| "fl_mul NInf PInf = NInf"
| "fl_mul NInf NInf = PInf"

text \<open>
  Float division \<open>x / y\<close> raises \<open>ZeroDivisionError\<close> for a zero divisor, whatever the
  dividend.
\<close>

fun fl_div :: "pyfloat \<Rightarrow> pyfloat \<Rightarrow> error + pyfloat" where
  "fl_div x (Fin y) =
     (if y = 0 then Inl ZeroDivisionError
      else case x of
             Fin a \<Rightarrow> Inr (to_f64 (a / y))
           | PInf \<Rightarrow> Inr (if 0 < y then PInf else NInf)
           | NInf \<Rightarrow> Inr (if 0 < y then NInf else PInf)
           | NaN \<Rightarrow> Inr NaN)"
| "fl_div NaN _ = Inr NaN"
| "fl_div _ NaN = Inr NaN"
| "fl_div (Fin a) _ = Inr (Fin 0)"
| "fl_div _ _ = Inr NaN"

text \<open>
  True division \<open>a / b\<close> of two integers: the correctly rounded quotient; a zero divisor
  raises \<open>ZeroDivisionError\<close>, a quotient too large for a float raises \<open>OverflowError\<close>.
\<close>

definition int_truediv :: "int \<Rightarrow> int \<Rightarrow> error + pyfloat" where
  "int_truediv a b =
     (if b = 0 then Inl ZeroDivisionError
      else case to_f64 (of_int a / of_int b) of
             Fin r \<Rightarrow> Inr (Fin r)
           | _ \<Rightarrow> Inl OverflowError)"

text \<open>Python's \<open>max(a, b)\<close> and \<open>min(a, b)\<close> of two floats: the first unless the second beats it.\<close>

definition fl_max :: "pyfloat \<Rightarrow> pyfloat \<Rightarrow> pyfloat" where
  "fl_max a b = (if fl_less a b then b else a)"

definition fl_min :: "pyfloat \<Rightarrow> pyfloat \<Rightarrow> pyfloat" where
  "fl_min a b = (if fl_less b a then b else a)"

section \<open>Data model of the scripted orderbook simulation\<close>

text \<open>An order is the tuple \<open>(price, quantity, participant)\<close>.\<close>

type_synonym limit_order = "pyfloat \<times> int \<times> string"

text \<open>The dictionary \<open>orderbook\<close> with its two keys \<open>'bids'\<close> and \<open>'asks'\<close>.\<close>

record book =
  bids :: "limit_order list"
  asks :: "limit_order list"

text \<open>
  One row of the event log: the dictionary appended by \<open>record\<close>. The key \<open>'note'\<close> is
  called \<open>note_text\<close> here; an absent \<open>price\<close> or \<open>note\<close> (Python \<open>None\<close>) is \<open>None\<close>.
\<close>

record event =
  t :: int
  actor :: string
  action :: string
  price :: "pyfloat option"
  best_bid :: pyfloat
  best_ask :: pyfloat
  mid :: pyfloat
  note_text :: "string option"

text \<open>
  The module-level variables that \<open>simulate\<close> reads: the four float inputs and the integer
  of the threshold slider. They are the only state that outlives a call.
\<close>

record module_env =
  fair_price :: pyfloat
  algo_bid :: pyfloat
  algo_ask :: pyfloat
  human_buy :: pyfloat
  threshold_pct :: int

text \<open>
  The state threaded through one call of \<open>simulate\<close>: the module-level variables and the
  local variables \<open>orderbook\<close>, \<open>events\<close> and \<open>ts\<close> of the call.
\<close>

record sim_state =
  globals :: module_env
  orderbook :: book
  events :: "event list"
  ts :: int

definition HUMAN :: string where
  "HUMAN = ''HUMAN''"

definition ALGO :: string where
  "ALGO = ''ALGO''"

definition OTHER :: string where
  "OTHER = ''OTHER''"

section \<open>Built-ins\<close>

text \<open>
  Python's \<open>max(xs, key=f)\<close> raises \<open>ValueError\<close> on an empty sequence and otherwise
  scans from the left, replacing the running result only by an element whose key is strictly
  greater; \<open>min\<close> is symmetric. The keys of the script are floats.
\<close>

fun py_max :: "('a \<Rightarrow> pyfloat) \<Rightarrow> 'a list \<Rightarrow> error + 'a" where
  "py_max key [] = Inl ValueError"
| "py_max key (x # xs) = Inr (foldl (\<lambda>m y. if fl_less (key m) (key y) then y else m) x xs)"

fun py_min :: "('a \<Rightarrow> pyfloat) \<Rightarrow> 'a list \<Rightarrow> error + 'a" where
  "py_min key [] = Inl ValueError"
| "py_min key (x # xs) = Inr (foldl (\<lambda>m y. if fl_less (key y) (key m) then y else m) x xs)"

text \<open>The item assignment \<open>xs[i] = v\<close>, which raises \<open>IndexError\<close> out of range.\<close>

definition set_item :: "'a list \<Rightarrow> nat \<Rightarrow> 'a \<Rightarrow> error + 'a list" where
  "set_item xs i v = (if i < length xs then Inr (xs[i := v]) else Inl IndexError)"

text \<open>Sequencing of statements that may raise.\<close>

definition bind_res :: "error + 'a \<Rightarrow> ('a \<Rightarrow> error + 'b) \<Rightarrow> error + 'b" where
  "bind_res r f = (case r of Inl e \<Rightarrow> Inl e | Inr x \<Rightarrow> f x)"

section \<open>The simulation\<close>

text \<open>
  The nested function \<open>record\<close> of the source (named \<open>record_event\<close> here): it reads the
  current order book, computes best bid, best ask and mid in float arithmetic (the literal
  \<open>2\<close> is converted to the float 2.0), and appends one row to \<open>events\<close>.
\<close>

definition record_event ::
  "int \<Rightarrow> string \<Rightarrow> string \<Rightarrow> pyfloat option \<Rightarrow> string option \<Rightarrow> sim_state \<Rightarrow> error + sim_state" where
  "record_event ts_arg actor_arg action_arg price_arg note_arg st =
     bind_res (py_max fst (bids (orderbook st))) (\<lambda>b.
     bind_res (py_min fst (asks (orderbook st))) (\<lambda>a.
       let bb = fst b;
           ba = fst a
       in bind_res (fl_div (fl_add bb ba) (Fin 2)) (\<lambda>mid_val.
            Inr (st\<lparr>events := events st @
                   [\<lparr>t = ts_arg, actor = actor_arg, action = action_arg, price = price_arg,
                     best_bid = bb, best_ask = ba, mid = mid_val, note_text = note_arg\<rparr>]\<rparr>))))"

text \<open>
  The body of \<open>simulate\<close> is a straight line of five blocks, each ending in a call of
  \<open>record\<close>. \<open>after_tk\<close> is the state right after the block with time stamp \<open>k\<close>, so that
  the order book at every snapshot can be named. The call starts from the module-level
  variables it is given and from fresh local variables. In the block at \<open>t = 3\<close>,
  \<open>threshold_pct / 100\<close> is the true division of two integers; the integer literals 1 and
  2 that meet a float are converted exactly.
\<close>

definition after_t0 :: "module_env \<Rightarrow> error + sim_state" where
  "after_t0 env =
     (let st = \<lparr>globals = env,
                orderbook = \<lparr>bids = [(algo_bid env, 100, ALGO)],
                              asks = [(algo_ask env, 100, ALGO)]\<rparr>,
                events = [], ts = 0\<rparr>
      in record_event (ts st) ''INIT'' ''Initial quotes'' None None st)"

definition after_t1 :: "module_env \<Rightarrow> error + sim_state" where
  "after_t1 env =
     bind_res (after_t0 env) (\<lambda>st0.
       let st1 = st0\<lparr>ts := ts st0 + 1\<rparr>;
           st2 = st1\<lparr>orderbook := (orderbook st1)
                   \<lparr>bids := bids (orderbook st1) @ [(human_buy (globals st1), 10, HUMAN)]\<rparr>\<rparr>
       in record_event (ts st2) HUMAN ''Post bid'' (Some (human_buy (globals st2)))
            (Some ''Human places limit buy'') st2)"

definition after_t2 :: "module_env \<Rightarrow> error + sim_state" where
  "after_t2 env =
     bind_res (after_t1 env) (\<lambda>st0.
       let st1 = st0\<lparr>ts := ts st0 + 1\<rparr>
       in bind_res (set_item (bids (orderbook st1)) 0
                      (fl_add (algo_bid (globals st1)) (Fin 2), 100, ALGO)) (\<lambda>bs.
            let st2 = st1\<lparr>orderbook := (orderbook st1)\<lparr>bids := bs\<rparr>\<rparr>
            in record_event (ts st2) ALGO ''Improves bid''
                 (Some (fl_add (algo_bid (globals st2)) (Fin 2)))
                 (Some ''Algo moves bid up slightly'') st2))"

definition after_t3 :: "module_env \<Rightarrow> error + sim_state" where
  "after_t3 env =
     bind_res (after_t2 env) (\<lambda>st0.
       let st1 = st0\<lparr>ts := ts st0 + 1\<rparr>
       in bind_res (int_truediv (threshold_pct (globals st1)) 100) (\<lambda>pct.
            let sell_trigger = fl_mul (fair_price (globals st1)) (fl_add (Fin 1) pct)
            in bind_res (set_item (asks (orderbook st1)) 0 (sell_trigger, 100, ALGO)) (\<lambda>as.
                 let st2 = st1\<lparr>orderbook := (orderbook st1)\<lparr>asks := as\<rparr>\<rparr>
                 in record_event (ts st2) ALGO ''Sell trigger'' (Some sell_trigger)
                      (Some ''Algo prepares to sell at threshold'') st2)))"

definition after_t4 :: "module_env \<Rightarrow> error + sim_state" where
  "after_t4 env =
     bind_res (after_t3 env) (\<lambda>st0.
       let st1 = st0\<lparr>ts := ts st0 + 1\<rparr>
       in bind_res (set_item (asks (orderbook st1)) 0 (algo_ask (globals st1), 100, ALGO)) (\<lambda>as.
            let st2 = st1\<lparr>orderbook := (orderbook st1)\<lparr>asks := as\<rparr>\<rparr>
            in bind_res (set_item (bids (orderbook st2)) 0
                           (algo_bid (globals st2), 100, ALGO)) (\<lambda>bs.
                 let st3 = st2\<lparr>orderbook := (orderbook st2)\<lparr>bids := bs\<rparr>\<rparr>
                 in record_event (ts st3) ALGO ''Reset quotes'' None
                      (Some ''Algo resets to original quotes'') st3)))"

text \<open>
  \<open>simulate\<close> returns the event log (the source wraps the list of rows into a data frame,
  one row per dictionary, in order). The local variables end with the call; the
  module-level variables are handed back as the call leaves them.
\<close>

definition simulate :: "module_env \<Rightarrow> error + event list \<times> module_env" where
  "simulate env = bind_res (after_t4 env) (\<lambda>st. Inr (events st, globals st))"

text \<open>
  The results of the five blocks in script order: the states at the five snapshot points of
  one run.
\<close>

definition snapshots :: "module_env \<Rightarrow> (error + sim_state) list" where
  "snapshots env = [after_t0 env, after_t1 env, after_t2 env, after_t3 env, after_t4 env]"

text \<open>The float value of \<open>(bb + ba) / 2\<close>; the division by the literal cannot raise.\<close>

abbreviation mid_of :: "pyfloat \<Rightarrow> pyfloat \<Rightarrow> pyfloat" where
  "mid_of bb ba \<equiv> projr (fl_div (fl_add bb ba) (Fin 2))"

text \<open>The module-level variables when all four float inputs are finite.\<close>

abbreviation finite_env :: "real \<Rightarrow> real \<Rightarrow> real \<Rightarrow> real \<Rightarrow> int \<Rightarrow> module_env" where
  "finite_env fp ab aa hb tp \<equiv>
     \<lparr>fair_price = Fin fp, algo_bid = Fin ab, algo_ask = Fin aa, human_buy = Fin hb,
      threshold_pct = tp\<rparr>"

section \<open>Rounding\<close>

text \<open>
  The exponent of a number inside a binade is that of the binade; this is how a rounding is
  evaluated on a concrete number.
\<close>


lemma two_powi_pos: "0 < (2::real) powi e"
  by (simp add: zero_less_power_int)

lemma expo_eqI:
  assumes "2 powi e \<le> \<bar>x\<bar>" and "\<bar>x\<bar> < 2 powi (e + 1)" and "- 1022 \<le> e"
  shows "expo x = e"
proof -
  have pos: "0 < \<bar>x\<bar>" using assms(1) two_powi_pos [of e] by linarith
  have a: "(2::real) powr real_of_int e = 2 powi e"
    by (simp add: powr_real_of_int')
  have b: "(2::real) powr (real_of_int e + 1) = 2 powi (e + 1)"
    using powr_real_of_int' [of 2 "e + 1"] by simp
  have "\<lfloor>log 2 \<bar>x\<bar>\<rfloor> = e"
    using assms(1,2) pos by (simp add: floor_log_eq_powr_iff a b)
  then show ?thesis using assms(3) by (simp add: expo_def)
qed

lemma round_val_eqI:
  assumes "2 powi e \<le> \<bar>x\<bar>" and "\<bar>x\<bar> < 2 powi (e + 1)" and "- 1022 \<le> e"
  shows "round_val x = of_int (rne (x / 2 powi (e - 52))) * 2 powi (e - 52)"
proof -
  have "0 < \<bar>x\<bar>" using assms(1) two_powi_pos [of e] by linarith
  then have "x \<noteq> 0" by auto
  then show ?thesis by (simp add: round_val_def ulp_def expo_eqI [OF assms])
qed

text \<open>
  The exponent computed from bit lengths: a code equation, so that \<open>to_f64\<close> and with it
  the whole simulation can be evaluated on rational inputs.
\<close>

lemma floor_log2_eqI:
  assumes "2 powi k \<le> y" and "y < 2 powi (k + 1)"
  shows "\<lfloor>log 2 y\<rfloor> = k"
proof -
  have pos: "0 < y" using assms(1) two_powi_pos [of k] by linarith
  have a: "(2::real) powr real_of_int k = 2 powi k"
    by (simp add: powr_real_of_int')
  have b: "(2::real) powr (real_of_int k + 1) = 2 powi (k + 1)"
    using powr_real_of_int' [of 2 "k + 1"] by simp
  show ?thesis using assms pos by (simp add: floor_log_eq_powr_iff a b)
qed

lemma two_pow_le_of_int: "2 ^ k \<le> (n::int) \<Longrightarrow> (2::real) ^ k \<le> real_of_int n"
  using of_int_le_iff [of "2 ^ k" n, where ?'a = real] by simp

lemma of_int_le_two_pow: "(n::int) \<le> 2 ^ k \<Longrightarrow> real_of_int n \<le> 2 ^ k"
  using of_int_le_iff [of n "2 ^ k", where ?'a = real] by simp

lemma expo_code [code]:
  "expo x =
     max (if x = 0 then 0
          else if 1 \<le> \<bar>x\<bar> then bitlen \<lfloor>\<bar>x\<bar>\<rfloor> - 1
          else - bitlen (\<lceil>1 / \<bar>x\<bar>\<rceil> - 1)) (- 1022)"
proof -
  have "\<lfloor>log 2 \<bar>x\<bar>\<rfloor> =
      (if x = 0 then 0
       else if 1 \<le> \<bar>x\<bar> then bitlen \<lfloor>\<bar>x\<bar>\<rfloor> - 1
       else - bitlen (\<lceil>1 / \<bar>x\<bar>\<rceil> - 1))"
  proof (cases "x = 0")
    case True
    then show ?thesis by (simp add: log_def)
  next
    case nz: False
    show ?thesis
    proof (cases "1 \<le> \<bar>x\<bar>")
      case True
      define n where "n = \<lfloor>\<bar>x\<bar>\<rfloor>"
      define k where "k = bitlen n - 1"
      have n1: "1 \<le> n" using True by (simp add: n_def le_floor_iff)
      then have n_pos: "0 < n" by simp
      from bitlen_bounds [OF n_pos] have lo: "2 ^ nat (bitlen n - 1) \<le> n"
        and hi: "n < 2 ^ nat (bitlen n)" by simp_all
      have k0: "0 \<le> k" using n_pos by (simp add: k_def bitlen_alt_def)
      have p1: "(2::real) powi k = 2 ^ nat k" using k0 by (simp add: power_int_def)
      have p2: "(2::real) powi (k + 1) = 2 ^ nat (bitlen n)"
        using k0 by (simp add: power_int_def k_def)
      have "(2::real) ^ nat k \<le> real_of_int n"
        unfolding k_def by (rule two_pow_le_of_int) (fact lo)
      then have "2 powi k \<le> real_of_int n" unfolding p1 .
      moreover have "real_of_int n \<le> \<bar>x\<bar>" by (simp add: n_def)
      ultimately have a: "2 powi k \<le> \<bar>x\<bar>" by linarith
      have "n + 1 \<le> 2 ^ nat (bitlen n)" using hi by simp
      then have "real_of_int (n + 1) \<le> 2 ^ nat (bitlen n)"
        by (rule of_int_le_two_pow)
      moreover have "\<bar>x\<bar> < real_of_int (n + 1)" by (simp add: n_def)
      ultimately have b: "\<bar>x\<bar> < 2 powi (k + 1)" unfolding p2 by linarith
      from floor_log2_eqI [OF a b] show ?thesis
        using nz True by (simp add: k_def n_def)
    next
      case False
      define y where "y = 1 / \<bar>x\<bar>"
      define m where "m = \<lceil>y\<rceil>"
      define j where "j = bitlen (m - 1)"
      have xpos: "0 < \<bar>x\<bar>" using nz by simp
      have y1: "1 < y" using False xpos by (simp add: y_def)
      have m2: "2 \<le> m" using y1 unfolding m_def by linarith
      then have m_pos: "0 < m - 1" by simp
      from bitlen_bounds [OF m_pos] have lo: "2 ^ nat (j - 1) \<le> m - 1"
        and hi: "m - 1 < 2 ^ nat j" by (simp_all add: j_def)
      have j1: "1 \<le> j" using m_pos by (simp add: j_def bitlen_alt_def)
      have ym: "y \<le> real_of_int m" and my: "real_of_int (m - 1) < y"
        unfolding m_def by linarith+
      have "m \<le> 2 ^ nat j" using hi by simp
      then have "real_of_int m \<le> 2 ^ nat j" by (rule of_int_le_two_pow)
      with ym have yhi: "y \<le> 2 ^ nat j" by linarith
      have "(2::real) ^ nat (j - 1) \<le> real_of_int (m - 1)"
        by (rule two_pow_le_of_int) (fact lo)
      with my have ylo: "2 ^ nat (j - 1) < y" by linarith
      have x_eq: "\<bar>x\<bar> = 1 / y" using xpos by (simp add: y_def)
      have p1: "(2::real) powi (- j) = 1 / 2 ^ nat j"
        using j1 by (simp add: power_int_def field_simps)
      have p2: "(2::real) powi (- j + 1) = 1 / 2 ^ nat (j - 1)"
        using j1 by (simp add: power_int_def field_simps nat_diff_distrib)
      have a: "2 powi (- j) \<le> \<bar>x\<bar>"
        unfolding p1 x_eq using yhi y1 by (simp add: field_simps)
      have b: "\<bar>x\<bar> < 2 powi (- j + 1)"
        unfolding p2 x_eq using ylo y1 by (simp add: field_simps)
      from floor_log2_eqI [OF a b] show ?thesis
        using nz False by (simp add: j_def m_def y_def)
    qed
  qed
  then show ?thesis by (simp add: expo_def)
qed

text \<open>Rounding moves a number by at most half a unit in the last place.\<close>


lemma rne_close: "\<bar>of_int (rne q) - q\<bar> \<le> 1 / 2"
  unfolding rne_def Let_def by (auto; linarith)

lemma ulp_pos: "0 < ulp x"
  by (simp add: ulp_def two_powi_pos)

lemma round_val_close: "\<bar>round_val x - x\<bar> \<le> ulp x / 2"
proof (cases "x = 0")
  case True
  then show ?thesis using ulp_pos [of x] by (simp add: round_val_def)
next
  case False
  have "\<bar>of_int (rne (x / ulp x)) - x / ulp x\<bar> * ulp x \<le> 1 / 2 * ulp x"
    using rne_close [of "x / ulp x"] ulp_pos [of x] by (intro mult_right_mono) auto
  moreover have "of_int (rne (x / ulp x)) * ulp x - x
      = (of_int (rne (x / ulp x)) - x / ulp x) * ulp x"
    using ulp_pos [of x] by (simp add: left_diff_distrib)
  then have "\<bar>of_int (rne (x / ulp x)) - x / ulp x\<bar> * ulp x
      = \<bar>of_int (rne (x / ulp x)) * ulp x - x\<bar>"
    using ulp_pos [of x] by (simp add: abs_mult)
  ultimately show ?thesis using False by (simp add: round_val_def)
qed

text \<open>
  In the normal range the relative error of a rounding is at most \<open>2 powi (- 53)\<close>, and a
  number of magnitude up to \<open>2 powi 1023\<close> does not overflow.
\<close>


lemma expo_normal:
  assumes "2 powi (- 1022) \<le> \<bar>x\<bar>"
  shows "2 powi (expo x) \<le> \<bar>x\<bar>"
proof -
  have pos: "0 < \<bar>x\<bar>" using assms two_powi_pos [of "- 1022"] by linarith
  have "(2::real) powr real_of_int (- 1022) \<le> \<bar>x\<bar>"
    using assms powr_real_of_int' [of 2 "- 1022"] by simp
  then have "real_of_int (- 1022) \<le> log 2 \<bar>x\<bar>"
    using pos by (simp add: le_log_iff)
  then have lo: "- 1022 \<le> \<lfloor>log 2 \<bar>x\<bar>\<rfloor>" by (simp add: le_floor_iff)
  have "2 powr real_of_int \<lfloor>log 2 \<bar>x\<bar>\<rfloor> \<le> \<bar>x\<bar>"
    using pos floor_log_eq_powr_iff [of "\<bar>x\<bar>" 2 "\<lfloor>log 2 \<bar>x\<bar>\<rfloor>"] by simp
  then have le: "2 powi \<lfloor>log 2 \<bar>x\<bar>\<rfloor> \<le> \<bar>x\<bar>"
    by (simp add: powr_real_of_int')
  have e: "expo x = \<lfloor>log 2 \<bar>x\<bar>\<rfloor>"
    unfolding expo_def by (rule max_absorb1) (fact lo)
  show ?thesis unfolding e by (fact le)
qed

lemma round_val_rel:
  assumes "2 powi (- 1022) \<le> \<bar>x\<bar>"
  shows "\<bar>round_val x - x\<bar> \<le> 2 powi (- 53) * \<bar>x\<bar>"
proof -
  have "ulp x / 2 = 2 powi (- 53) * 2 powi (expo x)"
    using power_int_add [of "2::real" "- 53" "expo x"] power_int_add [of "2::real" "- 1" "expo x - 52"]
    by (simp add: ulp_def power_int_minus algebra_simps)
  also have "\<dots> \<le> 2 powi (- 53) * \<bar>x\<bar>"
    by (rule mult_left_mono) (use expo_normal [OF assms] two_powi_pos [of "- 53"] in simp_all)
  finally show ?thesis using round_val_close [of x] by linarith
qed

lemma expo_le:
  assumes "\<bar>x\<bar> \<le> 2 powi 1023"
  shows "expo x \<le> 1023"
proof (cases "x = 0")
  case True
  then show ?thesis by (simp add: expo_def log_def)
next
  case False
  then have pos: "0 < \<bar>x\<bar>" by simp
  have "\<bar>x\<bar> \<le> 2 powr real_of_int 1023"
    using assms powr_real_of_int' [of 2 1023] by simp
  then have "log 2 \<bar>x\<bar> \<le> real_of_int 1023"
    using pos by (simp add: log_le_iff)
  then have "\<lfloor>log 2 \<bar>x\<bar>\<rfloor> \<le> 1023" by (simp add: floor_le_iff)
  then show ?thesis by (simp add: expo_def)
qed

lemma to_f64_finite:
  assumes "\<bar>x\<bar> \<le> 2 powi 1023"
  shows "to_f64 x = Fin (round_val x)"
proof -
  define M :: real where "M = 2 powi 1023"
  have M2: "(2::real) ^ 1024 = 2 * M" by (simp add: M_def)
  have "(2::real) powi (expo x - 52) \<le> M"
    unfolding M_def by (rule power_int_increasing) (use expo_le [OF assms] in simp_all)
  then have "ulp x \<le> M" by (simp add: ulp_def)
  moreover have "\<bar>x\<bar> \<le> M" using assms by (simp add: M_def)
  ultimately have "\<bar>round_val x\<bar> < 2 * M"
    using round_val_close [of x] two_powi_pos [of 1023] unfolding M_def by linarith
  then have "\<not> 2 ^ 1024 \<le> round_val x" and "\<not> round_val x \<le> - (2 ^ 1024)"
    unfolding M2 by linarith+
  then show ?thesis by (simp add: to_f64_def Let_def)
qed


lemma to_f64_eval:
  assumes "2 powi e \<le> \<bar>x\<bar>" and "\<bar>x\<bar> < 2 powi (e + 1)" and "- 1022 \<le> e" and "e \<le> 1022"
  shows "to_f64 x = Fin (of_int (rne (x / 2 powi (e - 52))) * 2 powi (e - 52))"
proof -
  define M :: real where "M = 2 powi 1023"
  have M2: "(2::real) ^ 1024 = 2 * M" by (simp add: M_def)
  have e: "expo x = e" by (rule expo_eqI) (use assms in auto)
  have "(2::real) powi (e + 1) \<le> M"
    unfolding M_def by (rule power_int_increasing) (use assms(4) in simp_all)
  moreover have "(2::real) powi (e - 52) \<le> M"
    unfolding M_def by (rule power_int_increasing) (use assms(4) in simp_all)
  ultimately have "\<bar>x\<bar> < M" and "ulp x \<le> M"
    using assms(2) by (auto simp add: ulp_def e)
  then have "\<bar>round_val x\<bar> < 2 * M"
    using round_val_close [of x] by linarith
  then have "\<not> 2 ^ 1024 \<le> round_val x" and "\<not> round_val x \<le> - (2 ^ 1024)"
    unfolding M2 by linarith+
  then show ?thesis
    using round_val_eqI [OF assms(1-3)] by (simp add: to_f64_def Let_def)
qed

text \<open>The quotient of a slider value by 100 never overflows.\<close>


lemma int_truediv_pct:
  assumes "0 \<le> tp" and "tp \<le> 100"
  shows "int_truediv tp 100 = Inr (to_f64 (of_int tp / 100))"
proof -
  have "(2::real) powi 0 \<le> 2 powi 1023"
    by (rule power_int_increasing) simp_all
  moreover have "\<bar>real_of_int tp / 100\<bar> \<le> 1" using assms by simp
  ultimately have "\<bar>real_of_int tp / 100\<bar> \<le> 2 powi 1023" by simp
  from to_f64_finite [OF this] show ?thesis by (simp add: int_truediv_def)
qed

section \<open>Comparisons\<close>


lemma fl_max_Fin: "fl_max (Fin a) (Fin b) = Fin (max a b)"
  by (simp add: fl_max_def max_def)

lemma fl_less_irrefl: "\<not> fl_less a a"
  by (cases a) simp_all

lemma fl_less_asym: "fl_less a b \<Longrightarrow> \<not> fl_less b a"
  by (cases a; cases b) simp_all

lemma fl_max_upper: "\<not> fl_less (fl_max a b) a" "\<not> fl_less (fl_max a b) b"
  by (auto simp add: fl_max_def fl_less_irrefl dest: fl_less_asym)



lemma fl_max_cases: "fl_max a b = a \<or> fl_max a b = b"
  by (simp add: fl_max_def)

section \<open>Concrete roundings\<close>

text \<open>
  The operations of the runs evaluated further down. The denominators are powers of two:
  \<open>2251799813685248 = 2 ^ 51\<close>, \<open>4503599627370496 = 2 ^ 52\<close>,
  \<open>9007199254740992 = 2 ^ 53\<close>, \<open>18014398509481984 = 2 ^ 54\<close> and
  \<open>36028797018963968 = 2 ^ 55\<close>.
\<close>


lemmas eval_simps = rne_def Let_def power_int_minus

lemma truediv_20_100: "int_truediv 20 100 = Inr (Fin (3602879701896397 / 18014398509481984))"
proof -
  have "to_f64 (20 / 100) = Fin (3602879701896397 / 18014398509481984)"
    using to_f64_eval [of "- 3" "20 / 100"] by (simp add: eval_simps)
  then show ?thesis by (simp add: int_truediv_def)
qed

lemma one_plus_pct20:
  "fl_add (Fin 1) (Fin (3602879701896397 / 18014398509481984)) =
     Fin (5404319552844595 / 4503599627370496)"
  using to_f64_eval [of 0 "1 + 3602879701896397 / 18014398509481984"]
  by (simp add: eval_simps)

lemma mul_40: "fl_mul (Fin 40) (Fin (5404319552844595 / 4503599627370496)) = Fin 48"
  using to_f64_eval [of 5 "40 * (5404319552844595 / 4503599627370496)"]
  by (simp add: eval_simps)

lemma mul_10: "fl_mul (Fin 10) (Fin (5404319552844595 / 4503599627370496)) = Fin 12"
  using to_f64_eval [of 3 "10 * (5404319552844595 / 4503599627370496)"]
  by (simp add: eval_simps)

lemma add_20_2: "fl_add (Fin 20) (Fin 2) = Fin 22"
  using to_f64_eval [of 4 "20 + 2"] by (simp add: eval_simps)

lemma truediv_10_100: "int_truediv 10 100 = Inr (Fin (3602879701896397 / 36028797018963968))"
proof -
  have "to_f64 (10 / 100) = Fin (3602879701896397 / 36028797018963968)"
    using to_f64_eval [of "- 4" "10 / 100"] by (simp add: eval_simps)
  then show ?thesis by (simp add: int_truediv_def)
qed

lemma one_plus_pct10:
  "fl_add (Fin 1) (Fin (3602879701896397 / 36028797018963968)) =
     Fin (2476979795053773 / 2251799813685248)"
  using to_f64_eval [of 0 "1 + 3602879701896397 / 36028797018963968"]
  by (simp add: eval_simps)

lemma mul_3: "fl_mul (Fin 3) (Fin (2476979795053773 / 2251799813685248)) =
    Fin (7430939385161319 / 2251799813685248)"
  using to_f64_eval [of 1 "3 * (2476979795053773 / 2251799813685248)"]
  by (simp add: eval_simps)

lemma add_big: "fl_add (Fin 1) (Fin 9007199254740992) = Fin 9007199254740992"
  using to_f64_eval [of 53 "1 + 9007199254740992"] by (simp add: eval_simps)

lemma half_big: "fl_div (Fin 9007199254740992) (Fin 2) = Inr (Fin 4503599627370496)"
  using to_f64_eval [of 52 "9007199254740992 / 2"] by (simp add: eval_simps)


lemma doubles:
  "is_double 3" "is_double 10" "is_double 20" "is_double 21" "is_double 40" "is_double 100"
  "is_double 1" "is_double 9007199254740992" "is_double 100000000000000000"
  using to_f64_eval [of 1 3] to_f64_eval [of 3 10] to_f64_eval [of 4 20] to_f64_eval [of 4 21]
    to_f64_eval [of 5 40] to_f64_eval [of 6 100] to_f64_eval [of 0 1]
    to_f64_eval [of 53 9007199254740992] to_f64_eval [of 56 100000000000000000]
  by (simp_all add: is_double_def eval_simps)

section \<open>Closed forms of the run\<close>


lemma bind_res_Inr: "bind_res (Inr x) f = f x"
  by (simp add: bind_res_def)

lemma bind_res_Inl: "bind_res (Inl e) f = Inl e"
  by (simp add: bind_res_def)

lemma bind_fl_div_2: "bind_res (fl_div x (Fin 2)) f = f (projr (fl_div x (Fin 2)))"
  by (cases x) (simp_all add: bind_res_def)

lemma record_event_one_bid:
  assumes "bids (orderbook st) = [b]" and "asks (orderbook st) = [a]"
  shows "record_event k who what p n st =
           Inr (st\<lparr>events := events st @
                  [\<lparr>t = k, actor = who, action = what, price = p,
                    best_bid = fst b, best_ask = fst a, mid = mid_of (fst b) (fst a),
                    note_text = n\<rparr>]\<rparr>)"
  using assms
  by (simp add: record_event_def Let_def bind_fl_div_2 bind_res_Inr del: fl_div.simps)

lemma record_event_two_bids:
  assumes "bids (orderbook st) = [b, c]" and "asks (orderbook st) = [a]"
  shows "record_event k who what p n st =
           Inr (st\<lparr>events := events st @
                  [\<lparr>t = k, actor = who, action = what, price = p,
                    best_bid = fl_max (fst b) (fst c), best_ask = fst a,
                    mid = mid_of (fl_max (fst b) (fst c)) (fst a),
                    note_text = n\<rparr>]\<rparr>)"
  using assms
  by (simp add: record_event_def Let_def bind_fl_div_2 bind_res_Inr fl_max_def
      del: fl_div.simps)

lemma after_t0_eq:
  "after_t0 env =
     Inr \<lparr>globals = env,
          orderbook = \<lparr>bids = [(algo_bid env, 100, ALGO)], asks = [(algo_ask env, 100, ALGO)]\<rparr>,
          events =
            [\<lparr>t = 0, actor = ''INIT'', action = ''Initial quotes'', price = None,
              best_bid = algo_bid env, best_ask = algo_ask env,
              mid = mid_of (algo_bid env) (algo_ask env), note_text = None\<rparr>],
          ts = 0\<rparr>"
  by (simp add: after_t0_def Let_def record_event_one_bid del: fl_div.simps)

lemma after_t1_eq:
  "after_t1 env =
     Inr \<lparr>globals = env,
          orderbook = \<lparr>bids = [(algo_bid env, 100, ALGO), (human_buy env, 10, HUMAN)],
                        asks = [(algo_ask env, 100, ALGO)]\<rparr>,
          events =
            [\<lparr>t = 0, actor = ''INIT'', action = ''Initial quotes'', price = None,
              best_bid = algo_bid env, best_ask = algo_ask env,
              mid = mid_of (algo_bid env) (algo_ask env), note_text = None\<rparr>,
             \<lparr>t = 1, actor = HUMAN, action = ''Post bid'', price = Some (human_buy env),
              best_bid = fl_max (algo_bid env) (human_buy env), best_ask = algo_ask env,
              mid = mid_of (fl_max (algo_bid env) (human_buy env)) (algo_ask env),
              note_text = Some ''Human places limit buy''\<rparr>],
          ts = 1\<rparr>"
  by (simp add: after_t1_def after_t0_eq Let_def bind_res_Inr record_event_two_bids
      del: fl_div.simps)

lemma after_t2_eq:
  "after_t2 env =
     Inr \<lparr>globals = env,
          orderbook = \<lparr>bids = [(fl_add (algo_bid env) (Fin 2), 100, ALGO),
                                (human_buy env, 10, HUMAN)],
                        asks = [(algo_ask env, 100, ALGO)]\<rparr>,
          events =
            [\<lparr>t = 0, actor = ''INIT'', action = ''Initial quotes'', price = None,
              best_bid = algo_bid env, best_ask = algo_ask env,
              mid = mid_of (algo_bid env) (algo_ask env), note_text = None\<rparr>,
             \<lparr>t = 1, actor = HUMAN, action = ''Post bid'', price = Some (human_buy env),
              best_bid = fl_max (algo_bid env) (human_buy env), best_ask = algo_ask env,
              mid = mid_of (fl_max (algo_bid env) (human_buy env)) (algo_ask env),
              note_text = Some ''Human places limit buy''\<rparr>,
             \<lparr>t = 2, actor = ALGO, action = ''Improves bid'',
              price = Some (fl_add (algo_bid env) (Fin 2)),
              best_bid = fl_max (fl_add (algo_bid env) (Fin 2)) (human_buy env),
              best_ask = algo_ask env,
              mid = mid_of (fl_max (fl_add (algo_bid env) (Fin 2)) (human_buy env))
                      (algo_ask env),
              note_text = Some ''Algo moves bid up slightly''\<rparr>],
          ts = 2\<rparr>"
  by (simp add: after_t2_def after_t1_eq Let_def bind_res_Inr set_item_def
      record_event_two_bids del: fl_div.simps fl_add.simps)

lemma after_t3_eq:
  assumes "int_truediv (threshold_pct env) 100 = Inr pct"
  shows "after_t3 env =
     Inr \<lparr>globals = env,
          orderbook = \<lparr>bids = [(fl_add (algo_bid env) (Fin 2), 100, ALGO),
                                (human_buy env, 10, HUMAN)],
                        asks = [(fl_mul (fair_price env) (fl_add (Fin 1) pct), 100, ALGO)]\<rparr>,
          events =
            [\<lparr>t = 0, actor = ''INIT'', action = ''Initial quotes'', price = None,
              best_bid = algo_bid env, best_ask = algo_ask env,
              mid = mid_of (algo_bid env) (algo_ask env), note_text = None\<rparr>,
             \<lparr>t = 1, actor = HUMAN, action = ''Post bid'', price = Some (human_buy env),
              best_bid = fl_max (algo_bid env) (human_buy env), best_ask = algo_ask env,
              mid = mid_of (fl_max (algo_bid env) (human_buy env)) (algo_ask env),
              note_text = Some ''Human places limit buy''\<rparr>,
             \<lparr>t = 2, actor = ALGO, action = ''Improves bid'',
              price = Some (fl_add (algo_bid env) (Fin 2)),
              best_bid = fl_max (fl_add (algo_bid env) (Fin 2)) (human_buy env),
              best_ask = algo_ask env,
              mid = mid_of (fl_max (fl_add (algo_bid env) (Fin 2)) (human_buy env))
                      (algo_ask env),
              note_text = Some ''Algo moves bid up slightly''\<rparr>,
             \<lparr>t = 3, actor = ALGO, action = ''Sell trigger'',
              price = Some (fl_mul (fair_price env) (fl_add (Fin 1) pct)),
              best_bid = fl_max (fl_add (algo_bid env) (Fin 2)) (human_buy env),
              best_ask = fl_mul (fair_price env) (fl_add (Fin 1) pct),
              mid = mid_of (fl_max (fl_add (algo_bid env) (Fin 2)) (human_buy env))
                      (fl_mul (fair_price env) (fl_add (Fin 1) pct)),
              note_text = Some ''Algo prepares to sell at threshold''\<rparr>],
          ts = 3\<rparr>"
  by (simp add: after_t3_def after_t2_eq assms Let_def bind_res_Inr set_item_def
      record_event_two_bids del: fl_div.simps fl_add.simps fl_mul.simps)

lemma after_t4_eq:
  assumes "int_truediv (threshold_pct env) 100 = Inr pct"
  shows "after_t4 env =
     Inr \<lparr>globals = env,
          orderbook = \<lparr>bids = [(algo_bid env, 100, ALGO), (human_buy env, 10, HUMAN)],
                        asks = [(algo_ask env, 100, ALGO)]\<rparr>,
          events =
            [\<lparr>t = 0, actor = ''INIT'', action = ''Initial quotes'', price = None,
              best_bid = algo_bid env, best_ask = algo_ask env,
              mid = mid_of (algo_bid env) (algo_ask env), note_text = None\<rparr>,
             \<lparr>t = 1, actor = HUMAN, action = ''Post bid'', price = Some (human_buy env),
              best_bid = fl_max (algo_bid env) (human_buy env), best_ask = algo_ask env,
              mid = mid_of (fl_max (algo_bid env) (human_buy env)) (algo_ask env),
              note_text = Some ''Human places limit buy''\<rparr>,
             \<lparr>t = 2, actor = ALGO, action = ''Improves bid'',
              price = Some (fl_add (algo_bid env) (Fin 2)),
              best_bid = fl_max (fl_add (algo_bid env) (Fin 2)) (human_buy env),
              best_ask = algo_ask env,
              mid = mid_of (fl_max (fl_add (algo_bid env) (Fin 2)) (human_buy env))
                      (algo_ask env),
              note_text = Some ''Algo moves bid up slightly''\<rparr>,
             \<lparr>t = 3, actor = ALGO, action = ''Sell trigger'',
              price = Some (fl_mul (fair_price env) (fl_add (Fin 1) pct)),
              best_bid = fl_max (fl_add (algo_bid env) (Fin 2)) (human_buy env),
              best_ask = fl_mul (fair_price env) (fl_add (Fin 1) pct),
              mid = mid_of (fl_max (fl_add (algo_bid env) (Fin 2)) (human_buy env))
                      (fl_mul (fair_price env) (fl_add (Fin 1) pct)),
              note_text = Some ''Algo prepares to sell at threshold''\<rparr>,
             \<lparr>t = 4, actor = ALGO, action = ''Reset quotes'', price = None,
              best_bid = fl_max (algo_bid env) (human_buy env), best_ask = algo_ask env,
              mid = mid_of (fl_max (algo_bid env) (human_buy env)) (algo_ask env),
              note_text = Some ''Algo resets to original quotes''\<rparr>],
          ts = 4\<rparr>"
  by (simp add: after_t4_def after_t3_eq [OF assms] Let_def bind_res_Inr set_item_def
      record_event_two_bids del: fl_div.simps fl_add.simps fl_mul.simps)

lemma simulate_eq:
  assumes "int_truediv (threshold_pct env) 100 = Inr pct"
  shows "simulate env =
     Inr ([\<lparr>t = 0, actor = ''INIT'', action = ''Initial quotes'', price = None,
              best_bid = algo_bid env, best_ask = algo_ask env,
              mid = mid_of (algo_bid env) (algo_ask env), note_text = None\<rparr>,
             \<lparr>t = 1, actor = HUMAN, action = ''Post bid'', price = Some (human_buy env),
              best_bid = fl_max (algo_bid env) (human_buy env), best_ask = algo_ask env,
              mid = mid_of (fl_max (algo_bid env) (human_buy env)) (algo_ask env),
              note_text = Some ''Human places limit buy''\<rparr>,
             \<lparr>t = 2, actor = ALGO, action = ''Improves bid'',
              price = Some (fl_add (algo_bid env) (Fin 2)),
              best_bid = fl_max (fl_add (algo_bid env) (Fin 2)) (human_buy env),
              best_ask = algo_ask env,
              mid = mid_of (fl_max (fl_add (algo_bid env) (Fin 2)) (human_buy env))
                      (algo_ask env),
              note_text = Some ''Algo moves bid up slightly''\<rparr>,
             \<lparr>t = 3, actor = ALGO, action = ''Sell trigger'',
              price = Some (fl_mul (fair_price env) (fl_add (Fin 1) pct)),
              best_bid = fl_max (fl_add (algo_bid env) (Fin 2)) (human_buy env),
              best_ask = fl_mul (fair_price env) (fl_add (Fin 1) pct),
              mid = mid_of (fl_max (fl_add (algo_bid env) (Fin 2)) (human_buy env))
                      (fl_mul (fair_price env) (fl_add (Fin 1) pct)),
              note_text = Some ''Algo prepares to sell at threshold''\<rparr>,
             \<lparr>t = 4, actor = ALGO, action = ''Reset quotes'', price = None,
              best_bid = fl_max (algo_bid env) (human_buy env), best_ask = algo_ask env,
              mid = mid_of (fl_max (algo_bid env) (human_buy env)) (algo_ask env),
              note_text = Some ''Algo resets to original quotes''\<rparr>], env)"
  by (simp add: simulate_def after_t4_eq [OF assms] bind_res_Inr del: fl_div.simps)

lemma pct_env:
  "int_truediv tp 100 = Inr pct \<Longrightarrow>
   int_truediv (threshold_pct (finite_env fp ab aa hb tp)) 100 = Inr pct"
  by simp

lemma Inr_mid_of: "Inr (projr (fl_div x (Fin 2))) = fl_div x (Fin 2)"
  by (cases x) simp_all

lemma mid_exact:
  assumes "fl_div (fl_add (Fin b) (Fin a)) (Fin 2) = Inr m"
    and "is_double (b + a)" and "is_double ((b + a) / 2)"
  shows "m = Fin ((b + a) / 2)"
  using assms by (simp add: is_double_def)

section \<open>Floating-point tolerance\<close>


lemma mid_close:
  assumes ab: "2 powi (- 1020) \<le> \<bar>b + a\<bar>" "\<bar>b + a\<bar> \<le> 2 powi 1022"
  shows "\<exists>m. fl_div (fl_add (Fin b) (Fin a)) (Fin 2) = Inr (Fin m) \<and>
           \<bar>m - (b + a) / 2\<bar> \<le> 2 powi (- 51) * \<bar>(b + a) / 2\<bar>"
proof -
  define u :: real where "u = 2 powi (- 53)"
  define lo :: real where "lo = 2 powi (- 1022)"
  define hi :: real where "hi = 2 powi 1022"
  define z where "z = b + a"
  define s where "s = round_val z"
  define m where "m = round_val (s / 2)"
  have u_pos: "0 < u" by (simp add: u_def two_powi_pos)
  have "u \<le> 2 powi (- 4)"
    unfolding u_def by (rule power_int_increasing) simp_all
  then have u_le: "u \<le> 1 / 16" by (simp add: power_int_minus)
  have u4: "2 powi (- 51) = 4 * u"
    using power_int_add [of "2::real" 2 "- 53"] by (simp add: u_def)
  have lo_pos: "0 < lo" by (simp add: lo_def two_powi_pos)
  have lo4: "2 powi (- 1020) = 4 * lo"
    using power_int_add [of "2::real" 2 "- 1022"] by (simp add: lo_def)
  have hi2: "2 powi 1023 = 2 * hi"
    using power_int_add [of "2::real" 1 1022] by (simp add: hi_def)
  have hi_pos: "0 < hi" by (simp add: hi_def two_powi_pos)
  have z_lo: "4 * lo \<le> \<bar>z\<bar>" using ab(1) unfolding lo4 z_def .
  have z_hi: "\<bar>z\<bar> \<le> hi" using ab(2) unfolding hi_def z_def .
  \<comment> \<open>the sum\<close>
  have "2 powi (- 1022) \<le> \<bar>z\<bar>" using z_lo lo_pos unfolding lo_def by linarith
  from round_val_rel [OF this] have sz: "\<bar>s - z\<bar> \<le> u * \<bar>z\<bar>"
    by (simp add: s_def u_def)
  have "\<bar>z\<bar> \<le> 2 powi 1023" using z_hi hi_pos unfolding hi2 by linarith
  then have s_fin: "to_f64 z = Fin s" unfolding s_def by (rule to_f64_finite)
  have uz: "u * \<bar>z\<bar> \<le> \<bar>z\<bar> / 16"
    using mult_right_mono [of u "1 / 16" "\<bar>z\<bar>"] u_le by simp
  have s_range: "\<bar>z\<bar> / 2 \<le> \<bar>s\<bar>" "\<bar>s\<bar> \<le> 2 * \<bar>z\<bar>"
    using sz uz by linarith+
  \<comment> \<open>the half\<close>
  have "2 powi (- 1022) \<le> \<bar>s / 2\<bar>" using s_range(1) z_lo unfolding lo_def by simp
  from round_val_rel [OF this] have ms: "\<bar>m - s / 2\<bar> \<le> u * \<bar>s / 2\<bar>"
    by (simp add: m_def u_def)
  have "\<bar>s / 2\<bar> \<le> 2 powi 1023" using s_range(2) z_hi hi_pos unfolding hi2 by simp
  then have m_fin: "to_f64 (s / 2) = Fin m" unfolding m_def by (rule to_f64_finite)
  \<comment> \<open>together\<close>
  have "u * \<bar>s / 2\<bar> \<le> u * \<bar>z\<bar>"
    by (rule mult_left_mono) (use s_range(2) u_pos in simp_all)
  with ms have a: "\<bar>m - s / 2\<bar> \<le> u * \<bar>z\<bar>" by linarith
  have "m - z / 2 = (m - s / 2) + (s - z) / 2" by (simp add: field_simps)
  then have "\<bar>m - z / 2\<bar> \<le> \<bar>m - s / 2\<bar> + \<bar>s - z\<bar> / 2"
    using abs_triangle_ineq [of "m - s / 2" "(s - z) / 2"] by simp
  with a sz have "\<bar>m - z / 2\<bar> \<le> 2 * (u * \<bar>z\<bar>)" using u_pos by linarith
  then have "\<bar>m - z / 2\<bar> \<le> 4 * u * \<bar>z / 2\<bar>" by simp
  moreover have "fl_div (fl_add (Fin b) (Fin a)) (Fin 2) = Inr (Fin m)"
    using s_fin m_fin by (simp add: z_def)
  ultimately show ?thesis unfolding u4 z_def by blast
qed

lemma sell_trigger_close:
  assumes tp: "0 \<le> tp" "tp \<le> 100"
    and fp: "fp = 0 \<or> 2 powi (- 1021) \<le> \<bar>fp\<bar> \<and> \<bar>fp\<bar> \<le> 2 powi 1021"
  shows "\<exists>r. fl_mul (Fin fp) (fl_add (Fin 1) (to_f64 (real_of_int tp / 100))) = Fin r \<and>
           \<bar>r - fp * (1 + real_of_int tp / 100)\<bar>
             \<le> 2 powi (- 51) * \<bar>fp * (1 + real_of_int tp / 100)\<bar>"
proof -
  define u :: real where "u = 2 powi (- 53)"
  define lo :: real where "lo = 2 powi (- 1022)"
  define hi :: real where "hi = 2 powi 1021"
  define x where "x = real_of_int tp / 100"
  define p where "p = round_val x"
  define s where "s = round_val (1 + p)"
  define r where "r = round_val (fp * s)"
  have u_pos: "0 < u" by (simp add: u_def two_powi_pos)
  have "u \<le> 2 powi (- 4)"
    unfolding u_def by (rule power_int_increasing) simp_all
  then have u_le: "u \<le> 1 / 16" by (simp add: power_int_minus)
  have u4: "2 powi (- 51) = 4 * u"
    using power_int_add [of "2::real" 2 "- 53"] by (simp add: u_def)
  have lo_pos: "0 < lo" by (simp add: lo_def two_powi_pos)
  have "lo \<le> 2 powi (- 7)"
    unfolding lo_def by (rule power_int_increasing) simp_all
  then have lo_le: "lo \<le> 1 / 128" by (simp add: power_int_minus)
  have lo2: "2 powi (- 1021) = 2 * lo"
    using power_int_add [of "2::real" 1 "- 1022"] by (simp add: lo_def)
  have hi4: "2 powi 1023 = 4 * hi"
    using power_int_add [of "2::real" 2 1021] by (simp add: hi_def)
  have "(2::real) powi 0 \<le> 2 powi 1021"
    by (rule power_int_increasing) simp_all
  then have hi_ge: "1 \<le> hi" by (simp add: hi_def)
  have x_range: "0 \<le> x" "x \<le> 1" using tp by (simp_all add: x_def)
  \<comment> \<open>the quotient\<close>
  have px: "\<bar>p - x\<bar> \<le> u * x"
  proof (cases "tp = 0")
    case True
    then show ?thesis by (simp add: p_def x_def round_val_def)
  next
    case False
    with tp have "1 \<le> tp" by simp
    then have "1 / 100 \<le> x" by (simp add: x_def)
    with lo_le have "2 powi (- 1022) \<le> \<bar>x\<bar>" unfolding lo_def by linarith
    from round_val_rel [OF this] show ?thesis
      using x_range by (simp add: p_def u_def)
  qed
  have "\<bar>x\<bar> \<le> 2 powi 1023" using x_range hi_ge unfolding hi4 by simp
  then have p_fin: "to_f64 x = Fin p" unfolding p_def by (rule to_f64_finite)
  have ux: "u * x \<le> 1 / 16"
    using mult_mono [of u "1 / 16" x 1] u_le x_range u_pos by simp
  have p_range: "0 \<le> p" "p \<le> 2"
  proof -
    have "u * x \<le> x" using mult_right_mono [of u 1 x] u_le x_range by simp
    with px show "0 \<le> p" by linarith
    from px ux x_range show "p \<le> 2" by linarith
  qed
  \<comment> \<open>the sum\<close>
  have "2 powi (- 1022) \<le> \<bar>1 + p\<bar>" using p_range lo_le unfolding lo_def by linarith
  from round_val_rel [OF this] have sp: "\<bar>s - (1 + p)\<bar> \<le> u * (1 + p)"
    using p_range by (simp add: s_def u_def)
  have "\<bar>1 + p\<bar> \<le> 2 powi 1023" using p_range hi_ge unfolding hi4 by simp
  then have s_fin: "to_f64 (1 + p) = Fin s" unfolding s_def by (rule to_f64_finite)
  have sx: "\<bar>s - (1 + x)\<bar> \<le> 2 * u * (1 + x)"
  proof -
    have "1 + p \<le> 1 + x + u * x" using px by linarith
    then have "u * (1 + p) \<le> u * (1 + x + u * x)"
      by (rule mult_left_mono) (use u_pos in simp)
    moreover have "u * (u * x) \<le> u * 1"
      by (rule mult_left_mono) (use ux u_pos in simp_all)
    ultimately have "u * (1 + p) + u * x \<le> 2 * u * (1 + x)"
      by (simp add: algebra_simps)
    with sp px show ?thesis by linarith
  qed
  have "u * (1 + x) \<le> 1 / 8"
    using mult_mono [of u "1 / 16" "1 + x" 2] u_le x_range u_pos by simp
  then have u1x: "2 * u * (1 + x) \<le> 1 / 4" by simp
  have s_range: "3 / 4 \<le> s" "s \<le> 4"
    using sx u1x x_range by linarith+
  show ?thesis
  proof (cases "fp = 0")
    case True
    have "fl_mul (Fin fp) (fl_add (Fin 1) (to_f64 (real_of_int tp / 100))) = Fin 0"
      using p_fin s_fin True by (simp add: x_def to_f64_def round_val_def Let_def)
    with True show ?thesis by simp
  next
    case False
    with fp have fp_lo: "2 * lo \<le> \<bar>fp\<bar>" and fp_hi: "\<bar>fp\<bar> \<le> hi"
      unfolding lo2 [symmetric] hi_def by simp_all
    \<comment> \<open>the product\<close>
    have abs_z: "\<bar>fp * s\<bar> = \<bar>fp\<bar> * s" using s_range by (simp add: abs_mult)
    have "2 * lo * (3 / 4) \<le> \<bar>fp\<bar> * s"
      by (rule mult_mono) (use fp_lo s_range lo_pos in simp_all)
    then have "2 powi (- 1022) \<le> \<bar>fp * s\<bar>"
      using lo_pos unfolding abs_z lo_def by linarith
    from round_val_rel [OF this] have rz: "\<bar>r - fp * s\<bar> \<le> u * (\<bar>fp\<bar> * s)"
      by (simp add: r_def u_def abs_z)
    have "\<bar>fp\<bar> * s \<le> hi * 4"
      by (rule mult_mono) (use fp_hi s_range in simp_all)
    then have "\<bar>fp * s\<bar> \<le> 2 powi 1023" unfolding abs_z hi4 by simp
    then have r_fin: "to_f64 (fp * s) = Fin r" unfolding r_def by (rule to_f64_finite)
    \<comment> \<open>together\<close>
    have a: "\<bar>fp\<bar> * \<bar>s - (1 + x)\<bar> \<le> \<bar>fp\<bar> * (2 * u * (1 + x))"
      by (rule mult_left_mono) (use sx in simp_all)
    have "s \<le> (1 + x) + 2 * u * (1 + x)" using sx by linarith
    then have "\<bar>fp\<bar> * s \<le> \<bar>fp\<bar> * ((1 + x) + 2 * u * (1 + x))"
      by (rule mult_left_mono) simp
    then have "u * (\<bar>fp\<bar> * s) \<le> u * (\<bar>fp\<bar> * ((1 + x) + 2 * u * (1 + x)))"
      by (rule mult_left_mono) (use u_pos in simp)
    with rz have b: "\<bar>r - fp * s\<bar> \<le> u * (\<bar>fp\<bar> * ((1 + x) + 2 * u * (1 + x)))"
      by linarith
    have E: "\<bar>fp * (1 + x)\<bar> = \<bar>fp\<bar> * (1 + x)" using x_range by (simp add: abs_mult)
    have "0 \<le> u * (\<bar>fp\<bar> * (1 + x))" using u_pos x_range by simp
    then have "2 * u * (u * (\<bar>fp\<bar> * (1 + x))) \<le> 1 * (u * (\<bar>fp\<bar> * (1 + x)))"
      by (rule mult_right_mono [rotated]) (use u_le u_pos in simp)
    then have c: "u * (\<bar>fp\<bar> * ((1 + x) + 2 * u * (1 + x))) + \<bar>fp\<bar> * (2 * u * (1 + x))
        \<le> 4 * u * (\<bar>fp\<bar> * (1 + x))"
      by (simp add: algebra_simps)
    have "r - fp * (1 + x) = (r - fp * s) + fp * (s - (1 + x))" by (simp add: algebra_simps)
    then have "\<bar>r - fp * (1 + x)\<bar> \<le> \<bar>r - fp * s\<bar> + \<bar>fp\<bar> * \<bar>s - (1 + x)\<bar>"
      using abs_triangle_ineq [of "r - fp * s" "fp * (s - (1 + x))"] by (simp add: abs_mult)
    with a b c have "\<bar>r - fp * (1 + x)\<bar> \<le> 4 * u * \<bar>fp * (1 + x)\<bar>"
      unfolding E by linarith
    moreover have "fl_mul (Fin fp) (fl_add (Fin 1) (to_f64 (real_of_int tp / 100))) = Fin r"
      using p_fin s_fin r_fin by (simp add: x_def)
    ultimately show ?thesis unfolding u4 x_def by blast
  qed
qed
lemma mid_close_or_zero:
  assumes "b + a = 0 \<or> 2 powi (- 1020) \<le> \<bar>b + a\<bar> \<and> \<bar>b + a\<bar> \<le> 2 powi 1022"
  shows "\<exists>m. fl_div (fl_add (Fin b) (Fin a)) (Fin 2) = Inr (Fin m) \<and>
           \<bar>m - (b + a) / 2\<bar> \<le> 2 powi (- 51) * \<bar>(b + a) / 2\<bar>"
proof (cases "b + a = 0")
  case True
  then show ?thesis by (simp add: to_f64_def round_val_def Let_def)
next
  case False
  with assms show ?thesis by (intro mid_close) simp_all
qed

section \<open>The records of a run\<close>

text \<open>
  The theorems assume a threshold between 0 and 100, the range of the slider; outside it
  the division \<open>threshold_pct / 100\<close> can raise. Where a theorem names prices, the four
  float inputs are finite, \<open>Fin fp\<close>, \<open>Fin ab\<close>, \<open>Fin aa\<close> and \<open>Fin hb\<close>.
\<close>

text \<open>
  C3. For every input the run succeeds and returns exactly five records; their time stamps
  are 0, 1, 2, 3, 4 (strictly increasing), their actors are INIT, HUMAN, ALGO, ALGO, ALGO
  and their actions are "Initial quotes", "Post bid", "Improves bid", "Sell trigger",
  "Reset quotes", in this order.
\<close>

theorem five_records:
  assumes "0 \<le> threshold_pct env" and "threshold_pct env \<le> 100"
  shows "\<exists>evs env'. simulate env = Inr (evs, env') \<and>
     length evs = 5 \<and>
     map t evs = [0, 1, 2, 3, 4] \<and>
     sorted_wrt (<) (map t evs) \<and>
     map actor evs = [''INIT'', ''HUMAN'', ''ALGO'', ''ALGO'', ''ALGO''] \<and>
     map action evs =
       [''Initial quotes'', ''Post bid'', ''Improves bid'', ''Sell trigger'', ''Reset quotes'']"
  by (simp add: simulate_eq [OF int_truediv_pct [OF assms]] HUMAN_def ALGO_def)

text \<open>C3 at the default inputs.\<close>

theorem five_records_witness:
  "(0::int) \<le> 20 \<and> (20::int) \<le> 100 \<and>
   (\<exists>evs env'. simulate (finite_env 40 20 100 21 20) = Inr (evs, env') \<and>
      length evs = 5 \<and> map t evs = [0, 1, 2, 3, 4] \<and>
      map actor evs = [''INIT'', ''HUMAN'', ''ALGO'', ''ALGO'', ''ALGO''])"
  using five_records [of "finite_env 40 20 100 21 20"] by auto

text \<open>
  C4. For every input the record at \<open>t = 1\<close> has \<open>best_bid = max algo_bid human_buy\<close>:
  the human bid \<open>(human_buy, 10, HUMAN)\<close> has been appended behind the algo bid, which is
  still in the bid sequence at that snapshot.
\<close>

theorem t1_best_bid:
  assumes "0 \<le> tp" and "tp \<le> 100"
  shows "\<exists>evs env' st. simulate (finite_env fp ab aa hb tp) = Inr (evs, env') \<and>
     after_t1 (finite_env fp ab aa hb tp) = Inr st \<and>
     bids (orderbook st) = [(Fin ab, 100, ALGO), (Fin hb, 10, HUMAN)] \<and>
     events st = take 2 evs \<and>
     t (evs ! 1) = 1 \<and>
     best_bid (evs ! 1) = Fin (max ab hb)"
  using simulate_eq [OF pct_env [OF int_truediv_pct [OF assms]]]
  by (simp add: after_t1_eq fl_max_Fin del: fl_div.simps)

text \<open>C4 at the default inputs: the best bid at \<open>t = 1\<close> is the human's 21.\<close>

theorem t1_best_bid_witness:
  "(0::int) \<le> 20 \<and> (20::int) \<le> 100 \<and>
   (\<exists>evs env'. simulate (finite_env 40 20 100 21 20) = Inr (evs, env') \<and>
      t (evs ! 1) = 1 \<and> best_bid (evs ! 1) = Fin 21)"
  using t1_best_bid [of 20 40 20 100 21] by auto

text \<open>
  C5, as amended. For every input the record at \<open>t = 3\<close> has as its best ask the float
  value of \<open>fair_price * (1 + threshold_pct / 100)\<close>, that is the correctly rounded
  quotient, the rounded sum and the rounded product, and the same float is recorded as the
  price of that event. For a finite fair price that is zero or of magnitude between
  \<open>2 powi (- 1021)\<close> and \<open>2 powi 1021\<close>, this float is finite and differs from the exact
  real value of the expression by at most \<open>2 powi (- 51)\<close> times the magnitude of that
  value.
\<close>

theorem t3_best_ask:
  assumes "0 \<le> threshold_pct env" and "threshold_pct env \<le> 100"
  shows "\<exists>evs env' pct. simulate env = Inr (evs, env') \<and>
     int_truediv (threshold_pct env) 100 = Inr pct \<and>
     pct = to_f64 (real_of_int (threshold_pct env) / 100) \<and>
     t (evs ! 3) = 3 \<and>
     best_ask (evs ! 3) = fl_mul (fair_price env) (fl_add (Fin 1) pct) \<and>
     price (evs ! 3) = Some (best_ask (evs ! 3)) \<and>
     (\<forall>fp. fair_price env = Fin fp \<and>
        (fp = 0 \<or> 2 powi (- 1021) \<le> \<bar>fp\<bar> \<and> \<bar>fp\<bar> \<le> 2 powi 1021) \<longrightarrow>
        (\<exists>r. best_ask (evs ! 3) = Fin r \<and>
           \<bar>r - fp * (1 + real_of_int (threshold_pct env) / 100)\<bar>
             \<le> 2 powi (- 51) * \<bar>fp * (1 + real_of_int (threshold_pct env) / 100)\<bar>))"
proof -
  note pct = int_truediv_pct [OF assms]
  let ?pct = "to_f64 (real_of_int (threshold_pct env) / 100)"
  have "\<exists>evs env'. simulate env = Inr (evs, env') \<and> t (evs ! 3) = 3 \<and>
      best_ask (evs ! 3) = fl_mul (fair_price env) (fl_add (Fin 1) ?pct) \<and>
      price (evs ! 3) = Some (best_ask (evs ! 3))"
    by (simp add: simulate_eq [OF pct] del: fl_div.simps fl_add.simps fl_mul.simps)
  then obtain evs env' where run: "simulate env = Inr (evs, env')" and t3: "t (evs ! 3) = 3"
    and ask: "best_ask (evs ! 3) = fl_mul (fair_price env) (fl_add (Fin 1) ?pct)"
    and prc: "price (evs ! 3) = Some (best_ask (evs ! 3))"
    by blast
  have "\<forall>fp. fair_price env = Fin fp \<and>
        (fp = 0 \<or> 2 powi (- 1021) \<le> \<bar>fp\<bar> \<and> \<bar>fp\<bar> \<le> 2 powi 1021) \<longrightarrow>
        (\<exists>r. best_ask (evs ! 3) = Fin r \<and>
           \<bar>r - fp * (1 + real_of_int (threshold_pct env) / 100)\<bar>
             \<le> 2 powi (- 51) * \<bar>fp * (1 + real_of_int (threshold_pct env) / 100)\<bar>)"
    using sell_trigger_close [OF assms] unfolding ask by metis
  with run t3 ask prc pct show ?thesis by blast
qed

text \<open>
  C5 at the default inputs: the fair price 40 is in range, the best ask and the price at
  \<open>t = 3\<close> are the float 48, within the tolerance of the exact value.
\<close>

theorem t3_best_ask_witness:
  "(0::int) \<le> 20 \<and> (20::int) \<le> 100 \<and>
   2 powi (- 1021) \<le> \<bar>40::real\<bar> \<and> \<bar>40::real\<bar> \<le> 2 powi 1021 \<and>
   (\<exists>evs env'. simulate (finite_env 40 20 100 21 20) = Inr (evs, env') \<and>
      t (evs ! 3) = 3 \<and> best_ask (evs ! 3) = Fin 48 \<and> price (evs ! 3) = Some (Fin 48) \<and>
      \<bar>48 - 40 * (1 + real_of_int 20 / 100)\<bar>
        \<le> 2 powi (- 51) * \<bar>40 * (1 + real_of_int 20 / 100)\<bar>)"
proof -
  have r1: "(0::int) \<le> 20" and r2: "(20::int) \<le> 100" by simp_all
  have "(2::real) powi (- 1021) \<le> 2 powi 0" and "(2::real) powi 6 \<le> 2 powi 1021"
    by (rule power_int_increasing; simp)+
  then have rng: "2 powi (- 1021) \<le> \<bar>40::real\<bar>" "\<bar>40::real\<bar> \<le> 2 powi 1021"
    by simp_all
  from t3_best_ask [of "finite_env 40 20 100 21 20", unfolded module_env.select_convs,
      OF r1 r2]
  obtain evs env' pct where
    run: "simulate (finite_env 40 20 100 21 20) = Inr (evs, env')" and
    pct: "int_truediv 20 100 = Inr pct" and t3: "t (evs ! 3) = 3" and
    ask: "best_ask (evs ! 3) = fl_mul (Fin 40) (fl_add (Fin 1) pct)" and
    prc: "price (evs ! 3) = Some (best_ask (evs ! 3))" and
    tol: "\<forall>fp. Fin 40 = Fin fp \<and>
        (fp = 0 \<or> 2 powi (- 1021) \<le> \<bar>fp\<bar> \<and> \<bar>fp\<bar> \<le> 2 powi 1021) \<longrightarrow>
        (\<exists>r. best_ask (evs ! 3) = Fin r \<and>
           \<bar>r - fp * (1 + real_of_int 20 / 100)\<bar>
             \<le> 2 powi (- 51) * \<bar>fp * (1 + real_of_int 20 / 100)\<bar>)"
    by blast
  from pct have "pct = Fin (3602879701896397 / 18014398509481984)"
    unfolding truediv_20_100 by simp
  with ask have a48: "best_ask (evs ! 3) = Fin 48"
    by (simp add: one_plus_pct20 mul_40 del: fl_add.simps fl_mul.simps)
  from tol rng obtain r where "best_ask (evs ! 3) = Fin r"
    and "\<bar>r - 40 * (1 + real_of_int 20 / 100)\<bar>
      \<le> 2 powi (- 51) * \<bar>40 * (1 + real_of_int 20 / 100)\<bar>"
    by blast
  with a48 have c: "\<bar>48 - 40 * (1 + real_of_int 20 / 100)\<bar>
      \<le> 2 powi (- 51) * \<bar>40 * (1 + real_of_int 20 / 100)\<bar>"
    by simp
  from prc a48 have p48: "price (evs ! 3) = Some (Fin 48)" by simp
  from r1 r2 rng run t3 a48 p48 c show ?thesis by blast
qed

text \<open>
  C5, as stated, fails: with fair price 3.0 and threshold 10 the best ask at \<open>t = 3\<close> is the
  float \<open>7430939385161319 / 2 ^ 51\<close> (printed 3.3000000000000003), not the real number
  \<open>3 * (1 + 10 / 100) = 33 / 10\<close>.
\<close>

theorem t3_best_ask_counterexample:
  "map_sum id (best_ask \<circ> hd \<circ> drop 3 \<circ> fst) (simulate (finite_env 3 20 100 21 10)) =
     Inr (Fin (7430939385161319 / 2251799813685248)) \<and>
   Fin (7430939385161319 / 2251799813685248) \<noteq> Fin (3 * (1 + real_of_int 10 / 100))"
  by (simp add: simulate_eq [OF pct_env [OF truediv_10_100]] one_plus_pct10 mul_3
      del: fl_div.simps fl_add.simps fl_mul.simps)

text \<open>
  C1, as amended. For every input the record at \<open>t = 4\<close> has \<open>best_ask = algo_ask\<close> and
  \<open>best_bid = max algo_bid human_buy\<close>: the reset rewrites only the first entry of each
  side, and the human bid appended at \<open>t = 1\<close> is still in the bid sequence. Hence
  \<open>best_bid = algo_bid\<close> holds exactly when \<open>human_buy \<le> algo_bid\<close>.
\<close>

theorem t4_quotes:
  assumes "0 \<le> tp" and "tp \<le> 100"
  shows "\<exists>evs env'. simulate (finite_env fp ab aa hb tp) = Inr (evs, env') \<and>
     length evs = 5 \<and> t (evs ! 4) = 4 \<and>
     best_ask (evs ! 4) = Fin aa \<and>
     best_bid (evs ! 4) = Fin (max ab hb) \<and>
     (best_bid (evs ! 4) = Fin ab \<longleftrightarrow> hb \<le> ab)"
  using simulate_eq [OF pct_env [OF int_truediv_pct [OF assms]]]
  by (auto simp add: fl_max_Fin max_def simp del: fl_div.simps)

text \<open>C1, as amended, at the default inputs: best ask 100 and best bid 21 at \<open>t = 4\<close>.\<close>

theorem t4_quotes_witness:
  "(0::int) \<le> 20 \<and> (20::int) \<le> 100 \<and>
   (\<exists>evs env'. simulate (finite_env 40 20 100 21 20) = Inr (evs, env') \<and>
      t (evs ! 4) = 4 \<and> best_ask (evs ! 4) = Fin 100 \<and> best_bid (evs ! 4) = Fin 21)"
  using t4_quotes [of 20 40 20 100 21] by auto

text \<open>
  C1, as stated, fails: with \<open>algo_bid = 10\<close> and \<open>human_buy = 15\<close> the last record of the
  run (the one at \<open>t = 4\<close>) has best bid 15, not 10.
\<close>

theorem t4_quotes_counterexample:
  "map_sum id (best_bid \<circ> last \<circ> fst) (simulate (finite_env 30 10 50 15 10)) = Inr (Fin 15) \<and>
   map_sum id (best_bid \<circ> last \<circ> fst) (simulate (finite_env 30 10 50 15 10)) \<noteq> Inr (Fin 10)"
  by (simp add: simulate_eq [OF pct_env [OF truediv_10_100]] fl_max_Fin
      del: fl_div.simps fl_add.simps fl_mul.simps)

text \<open>
  C2, as amended. For \<open>fair_price = 40\<close>, \<open>algo_bid = 20\<close>, \<open>algo_ask = 100\<close>,
  \<open>human_buy = 21\<close>, \<open>threshold_pct = 20\<close> the sequence of (best bid, best ask) is
  (20, 100), (21, 100), (22, 100), (22, 48), (21, 100): at \<open>t = 4\<close> the best bid is the
  human's 21. The float sum \<open>20 + 2\<close> is exactly 22 and the float value of
  \<open>40 * (1 + 20 / 100)\<close> is exactly 48.
\<close>

theorem default_scenario:
  "\<exists>evs env'. simulate (finite_env 40 20 100 21 20) = Inr (evs, env') \<and>
     map (\<lambda>e. (best_bid e, best_ask e)) evs =
       [(Fin 20, Fin 100), (Fin 21, Fin 100), (Fin 22, Fin 100), (Fin 22, Fin 48),
        (Fin 21, Fin 100)]"
  by (simp add: simulate_eq [OF pct_env [OF truediv_20_100]] one_plus_pct20 mul_40 add_20_2
      fl_max_Fin del: fl_div.simps fl_add.simps fl_mul.simps)

text \<open>
  C2, as stated, fails: the best bids of the five records of that run are
  20, 21, 22, 22, 21 and not 20, 21, 22, 22, 20.
\<close>

theorem default_scenario_counterexample:
  "map_sum id (map best_bid \<circ> fst) (simulate (finite_env 40 20 100 21 20)) =
     Inr [Fin 20, Fin 21, Fin 22, Fin 22, Fin 21] \<and>
   map_sum id (map best_bid \<circ> fst) (simulate (finite_env 40 20 100 21 20)) \<noteq>
     Inr [Fin 20, Fin 21, Fin 22, Fin 22, Fin 20]"
  by (simp add: simulate_eq [OF pct_env [OF truediv_20_100]] one_plus_pct20 mul_40 add_20_2
      fl_max_Fin del: fl_div.simps fl_add.simps fl_mul.simps)

text \<open>
  C6, as amended. For every input and every record of the run, \<open>mid\<close> is the float value
  of \<open>(best_bid + best_ask) / 2\<close>: the rounded sum, halved and rounded. It is the exact
  midpoint whenever the sum and its half are floats, and for finite quotes whose sum is
  zero or of magnitude between \<open>2 powi (- 1020)\<close> and \<open>2 powi 1022\<close> it differs from the
  exact midpoint by at most \<open>2 powi (- 51)\<close> times its magnitude. Record number \<open>k\<close> is the
  last row of the log at snapshot \<open>k\<close>; its best bid is a price of the bid sequence of the
  order book at that snapshot that no bid price exceeds, and its best ask is a price of
  the ask sequence that no ask price undercuts.
\<close>

theorem mid_is_float_midpoint:
  assumes "0 \<le> threshold_pct env" and "threshold_pct env \<le> 100"
  shows "\<exists>evs env'. simulate env = Inr (evs, env') \<and>
     (\<forall>e \<in> set evs. fl_div (fl_add (best_bid e) (best_ask e)) (Fin 2) = Inr (mid e)) \<and>
     (\<forall>e \<in> set evs. \<forall>b a. best_bid e = Fin b \<and> best_ask e = Fin a \<and>
        is_double (b + a) \<and> is_double ((b + a) / 2) \<longrightarrow> mid e = Fin ((b + a) / 2)) \<and>
     (\<forall>e \<in> set evs. \<forall>b a. best_bid e = Fin b \<and> best_ask e = Fin a \<and>
        (b + a = 0 \<or> 2 powi (- 1020) \<le> \<bar>b + a\<bar> \<and> \<bar>b + a\<bar> \<le> 2 powi 1022) \<longrightarrow>
        (\<exists>m. mid e = Fin m \<and> \<bar>m - (b + a) / 2\<bar> \<le> 2 powi (- 51) * \<bar>(b + a) / 2\<bar>)) \<and>
     list_all2
       (\<lambda>r e. \<exists>st. r = Inr st \<and> last (events st) = e \<and>
          best_bid e \<in> fst ` set (bids (orderbook st)) \<and>
          (\<forall>b \<in> set (bids (orderbook st)). \<not> fl_less (best_bid e) (fst b)) \<and>
          best_ask e \<in> fst ` set (asks (orderbook st)) \<and>
          (\<forall>a \<in> set (asks (orderbook st)). \<not> fl_less (fst a) (best_ask e)))
       (snapshots env) evs"
proof -
  note pct = int_truediv_pct [OF assms]
  have "\<exists>evs env'. simulate env = Inr (evs, env') \<and>
     (\<forall>e \<in> set evs. fl_div (fl_add (best_bid e) (best_ask e)) (Fin 2) = Inr (mid e))"
    by (simp add: simulate_eq [OF pct] Inr_mid_of del: fl_div.simps fl_add.simps fl_mul.simps)
  then obtain evs env' where run: "simulate env = Inr (evs, env')"
    and mids: "\<forall>e \<in> set evs. fl_div (fl_add (best_bid e) (best_ask e)) (Fin 2) = Inr (mid e)"
    by blast
  have exact: "\<forall>e \<in> set evs. \<forall>b a. best_bid e = Fin b \<and> best_ask e = Fin a \<and>
        is_double (b + a) \<and> is_double ((b + a) / 2) \<longrightarrow> mid e = Fin ((b + a) / 2)"
    using mids mid_exact by metis
  have close: "\<forall>e \<in> set evs. \<forall>b a. best_bid e = Fin b \<and> best_ask e = Fin a \<and>
        (b + a = 0 \<or> 2 powi (- 1020) \<le> \<bar>b + a\<bar> \<and> \<bar>b + a\<bar> \<le> 2 powi 1022) \<longrightarrow>
        (\<exists>m. mid e = Fin m \<and> \<bar>m - (b + a) / 2\<bar> \<le> 2 powi (- 51) * \<bar>(b + a) / 2\<bar>)"
  proof (intro ballI allI impI)
    fix e b a
    assume e: "e \<in> set evs"
      and h: "best_bid e = Fin b \<and> best_ask e = Fin a \<and>
        (b + a = 0 \<or> 2 powi (- 1020) \<le> \<bar>b + a\<bar> \<and> \<bar>b + a\<bar> \<le> 2 powi 1022)"
    from h mid_close_or_zero [of b a] obtain m where
      "fl_div (fl_add (Fin b) (Fin a)) (Fin 2) = Inr (Fin m)"
      and m: "\<bar>m - (b + a) / 2\<bar> \<le> 2 powi (- 51) * \<bar>(b + a) / 2\<bar>"
      by blast
    with mids e h have "mid e = Fin m" by (metis sum.inject(2))
    with m show "\<exists>m. mid e = Fin m \<and> \<bar>m - (b + a) / 2\<bar> \<le> 2 powi (- 51) * \<bar>(b + a) / 2\<bar>"
      by blast
  qed
  have "\<exists>evs env'. simulate env = Inr (evs, env') \<and> list_all2
       (\<lambda>r e. \<exists>st. r = Inr st \<and> last (events st) = e \<and>
          best_bid e \<in> fst ` set (bids (orderbook st)) \<and>
          (\<forall>b \<in> set (bids (orderbook st)). \<not> fl_less (best_bid e) (fst b)) \<and>
          best_ask e \<in> fst ` set (asks (orderbook st)) \<and>
          (\<forall>a \<in> set (asks (orderbook st)). \<not> fl_less (fst a) (best_ask e)))
       (snapshots env) evs"
    using fl_max_cases [of "algo_bid env" "human_buy env"]
      fl_max_cases [of "fl_add (algo_bid env) (Fin 2)" "human_buy env"]
    by (simp add: simulate_eq [OF pct] snapshots_def after_t0_eq after_t1_eq after_t2_eq
        after_t3_eq [OF pct] after_t4_eq [OF pct] fl_less_irrefl fl_max_upper
        del: fl_div.simps fl_add.simps fl_mul.simps)
  with run have snaps: "list_all2
       (\<lambda>r e. \<exists>st. r = Inr st \<and> last (events st) = e \<and>
          best_bid e \<in> fst ` set (bids (orderbook st)) \<and>
          (\<forall>b \<in> set (bids (orderbook st)). \<not> fl_less (best_bid e) (fst b)) \<and>
          best_ask e \<in> fst ` set (asks (orderbook st)) \<and>
          (\<forall>a \<in> set (asks (orderbook st)). \<not> fl_less (fst a) (best_ask e)))
       (snapshots env) evs"
    by auto
  from run mids exact close snaps show ?thesis by blast
qed

text \<open>
  C6 at the default inputs and the record at \<open>t = 4\<close>, a member of the log: best bid 21,
  best ask 100; their sum 121 and its half are floats and lie in the range of the
  tolerance, and the mid is the exact midpoint 121 / 2.
\<close>

theorem mid_is_float_midpoint_witness:
  "(0::int) \<le> 20 \<and> (20::int) \<le> 100 \<and>
   is_double (21 + 100) \<and> is_double ((21 + 100) / 2) \<and>
   2 powi (- 1020) \<le> \<bar>21 + 100 :: real\<bar> \<and> \<bar>21 + 100 :: real\<bar> \<le> 2 powi 1022 \<and>
   (\<exists>evs env'. simulate (finite_env 40 20 100 21 20) = Inr (evs, env') \<and> length evs = 5 \<and>
      best_bid (evs ! 4) = Fin 21 \<and> best_ask (evs ! 4) = Fin 100 \<and>
      fl_div (fl_add (Fin 21) (Fin 100)) (Fin 2) = Inr (mid (evs ! 4)) \<and>
      mid (evs ! 4) = Fin ((21 + 100) / 2) \<and>
      (\<exists>m. mid (evs ! 4) = Fin m \<and>
         \<bar>m - (21 + 100) / 2\<bar> \<le> 2 powi (- 51) * \<bar>(21 + 100) / 2\<bar>))"
proof -
  have r1: "(0::int) \<le> 20" and r2: "(20::int) \<le> 100" by simp_all
  have d: "is_double (21 + 100)" "is_double ((21 + 100) / 2)"
    using to_f64_eval [of 6 "21 + 100"] to_f64_eval [of 5 "(21 + 100) / 2"]
    by (simp_all add: is_double_def eval_simps)
  have "(2::real) powi (- 1020) \<le> 2 powi 0" and "(2::real) powi 7 \<le> 2 powi 1022"
    by (rule power_int_increasing; simp)+
  then have rng: "2 powi (- 1020) \<le> \<bar>21 + 100 :: real\<bar>" "\<bar>21 + 100 :: real\<bar> \<le> 2 powi 1022"
    by simp_all
  from mid_is_float_midpoint [of "finite_env 40 20 100 21 20",
      unfolded module_env.select_convs, OF r1 r2]
  obtain evs env' where
    run: "simulate (finite_env 40 20 100 21 20) = Inr (evs, env')" and
    mids: "\<forall>e \<in> set evs. fl_div (fl_add (best_bid e) (best_ask e)) (Fin 2) = Inr (mid e)" and
    exact: "\<forall>e \<in> set evs. \<forall>b a. best_bid e = Fin b \<and> best_ask e = Fin a \<and>
        is_double (b + a) \<and> is_double ((b + a) / 2) \<longrightarrow> mid e = Fin ((b + a) / 2)" and
    close: "\<forall>e \<in> set evs. \<forall>b a. best_bid e = Fin b \<and> best_ask e = Fin a \<and>
        (b + a = 0 \<or> 2 powi (- 1020) \<le> \<bar>b + a\<bar> \<and> \<bar>b + a\<bar> \<le> 2 powi 1022) \<longrightarrow>
        (\<exists>m. mid e = Fin m \<and> \<bar>m - (b + a) / 2\<bar> \<le> 2 powi (- 51) * \<bar>(b + a) / 2\<bar>)"
    by blast
  from run have len: "length evs = 5" and bb: "best_bid (evs ! 4) = Fin 21"
    and ba: "best_ask (evs ! 4) = Fin 100"
    unfolding simulate_eq [OF pct_env [OF truediv_20_100]]
    by (auto simp add: fl_max_Fin simp del: fl_div.simps fl_add.simps fl_mul.simps)
  from len have mem: "evs ! 4 \<in> set evs" by simp
  with mids have "fl_div (fl_add (best_bid (evs ! 4)) (best_ask (evs ! 4))) (Fin 2)
      = Inr (mid (evs ! 4))" by blast
  then have m1: "fl_div (fl_add (Fin 21) (Fin 100)) (Fin 2) = Inr (mid (evs ! 4))"
    unfolding bb ba .
  from exact mem bb ba d have m2: "mid (evs ! 4) = Fin ((21 + 100) / 2)" by blast
  from close mem bb ba rng have m3: "\<exists>m. mid (evs ! 4) = Fin m \<and>
      \<bar>m - (21 + 100) / 2\<bar> \<le> 2 powi (- 51) * \<bar>(21 + 100) / 2\<bar>" by blast
  from r1 r2 d rng run len bb ba m1 m2 m3 show ?thesis by blast
qed

text \<open>
  C6, as stated, fails: with \<open>algo_bid = 1\<close> and \<open>algo_ask = 2 ^ 53\<close> the first record has
  best bid 1, best ask \<open>2 ^ 53\<close> and mid \<open>2 ^ 52\<close>, not \<open>(1 + 2 ^ 53) / 2\<close>: the float sum
  absorbs the 1.
\<close>

theorem mid_is_float_midpoint_counterexample:
  "map_sum id (best_bid \<circ> hd \<circ> fst) (simulate (finite_env 40 1 9007199254740992 21 20)) =
     Inr (Fin 1) \<and>
   map_sum id (best_ask \<circ> hd \<circ> fst) (simulate (finite_env 40 1 9007199254740992 21 20)) =
     Inr (Fin 9007199254740992) \<and>
   map_sum id (mid \<circ> hd \<circ> fst) (simulate (finite_env 40 1 9007199254740992 21 20)) =
     Inr (Fin 4503599627370496) \<and>
   Fin 4503599627370496 \<noteq> Fin ((1 + 9007199254740992) / 2)"
  by (simp add: simulate_eq [OF pct_env [OF truediv_20_100]] add_big half_big
      del: fl_div.simps fl_add.simps fl_mul.simps)

text \<open>
  C7. \<open>best_ask \<ge> best_bid\<close> is not guaranteed: there are float inputs with
  \<open>0 \<le> threshold_pct \<le> 100\<close> for which some record of the run has its best ask
  strictly below its best bid. (With fair price 10 and the other defaults, the sell trigger
  12 lies below the improved bid 22.)
\<close>

theorem crossed_book_possible:
  "\<exists>fp ab aa hb tp.
     is_double fp \<and> is_double ab \<and> is_double aa \<and> is_double hb \<and>
     0 \<le> tp \<and> tp \<le> 100 \<and>
     (\<exists>evs env'. simulate (finite_env fp ab aa hb tp) = Inr (evs, env') \<and>
        (\<exists>e \<in> set evs. fl_less (best_ask e) (best_bid e)))"
proof -
  have "\<exists>evs env'. simulate (finite_env 10 20 100 21 20) = Inr (evs, env') \<and>
      (\<exists>e \<in> set evs. fl_less (best_ask e) (best_bid e))"
    by (simp add: simulate_eq [OF pct_env [OF truediv_20_100]] one_plus_pct20 mul_10 add_20_2
        fl_max_Fin del: fl_div.simps fl_add.simps fl_mul.simps)
  moreover have "(0::int) \<le> 20 \<and> (20::int) \<le> 100" by simp
  ultimately show ?thesis using doubles by blast
qed

text \<open>
  C8. \<open>simulate\<close> is deterministic and carries no state from one run to the next: a run
  leaves the module-level variables as it found them, so a second run started from the
  state that the first one left succeeds as the first did and returns the same five
  records, field by field.
\<close>

theorem simulate_deterministic:
  assumes "0 \<le> threshold_pct env" and "threshold_pct env \<le> 100"
  shows "\<exists>evs1 env1 evs2 env2.
     simulate env = Inr (evs1, env1) \<and> simulate env1 = Inr (evs2, env2) \<and>
     env1 = env \<and> env2 = env \<and> evs2 = evs1 \<and> length evs1 = 5"
  by (simp add: simulate_eq [OF int_truediv_pct [OF assms]] del: fl_div.simps)

text \<open>C8 at the default inputs.\<close>

theorem simulate_deterministic_witness:
  "(0::int) \<le> 20 \<and> (20::int) \<le> 100 \<and>
   (\<exists>evs1 env1 evs2 env2.
      simulate (finite_env 40 20 100 21 20) = Inr (evs1, env1) \<and>
      simulate env1 = Inr (evs2, env2) \<and>
      env1 = finite_env 40 20 100 21 20 \<and> env2 = finite_env 40 20 100 21 20 \<and>
      evs2 = evs1 \<and> length evs1 = 5)"
  using simulate_deterministic [of "finite_env 40 20 100 21 20"] by simp

text \<open>
  C9. For every input, at each of the five snapshot points of a run (after seeding and
  after each of the four mutation steps) the script has not failed and both the bid
  sequence and the ask sequence hold at least one order; what \<open>simulate\<close> returns is the
  log of the last snapshot.
\<close>

theorem non_empty_book:
  assumes "0 \<le> threshold_pct env" and "threshold_pct env \<le> 100"
  shows "list_all (\<lambda>r. \<exists>st. r = Inr st \<and> bids (orderbook st) \<noteq> [] \<and> asks (orderbook st) \<noteq> [])
     (snapshots env) \<and>
   length (snapshots env) = 5 \<and>
   simulate env = map_sum id (\<lambda>st. (events st, globals st)) (last (snapshots env))"
  by (simp add: snapshots_def simulate_eq [OF int_truediv_pct [OF assms]] after_t0_eq
      after_t1_eq after_t2_eq after_t3_eq [OF int_truediv_pct [OF assms]]
      after_t4_eq [OF int_truediv_pct [OF assms]] del: fl_div.simps)

text \<open>C9 at the default inputs.\<close>

theorem non_empty_book_witness:
  "(0::int) \<le> 20 \<and> (20::int) \<le> 100 \<and>
   list_all (\<lambda>r. \<exists>st. r = Inr st \<and> bids (orderbook st) \<noteq> [] \<and> asks (orderbook st) \<noteq> [])
     (snapshots (finite_env 40 20 100 21 20)) \<and>
   length (snapshots (finite_env 40 20 100 21 20)) = 5"
  using non_empty_book [of "finite_env 40 20 100 21 20"] by simp




end
